theory Spec2Isabelle
  imports Main "HOL-Library.Sublist"
begin

section \<open>Python strings\<close>

text \<open>
  A Python string is modelled as a list of characters, a character being a code point
  below 256. The character classes are those of Python 3 on that range:
  \<open>Py_UNICODE_ISSPACE\<close> for \<open>str.strip()\<close> and the regular expression class
  \<open>\s\<close>, \<open>Py_UNICODE_ISALNUM\<close> or an underscore for the class \<open>\w\<close>.
\<close>

abbreviation NL :: char where
  "NL \<equiv> CHR 0x0A"

abbreviation BSL :: char where
  "BSL \<equiv> CHR 0x5C"

definition code :: "char \<Rightarrow> nat" where
  "code c = of_char c"

definition is_space :: "char \<Rightarrow> bool" where
  "is_space c =
     (let n = code c
      in (9 \<le> n \<and> n \<le> 13) \<or> (28 \<le> n \<and> n \<le> 32) \<or> n = 133 \<or> n = 160)"

definition is_word :: "char \<Rightarrow> bool" where
  "is_word c =
     (let n = code c
      in (48 \<le> n \<and> n \<le> 57) \<or> (65 \<le> n \<and> n \<le> 90) \<or> n = 95 \<or> (97 \<le> n \<and> n \<le> 122)
         \<or> n = 170 \<or> n = 178 \<or> n = 179 \<or> n = 181 \<or> n = 185 \<or> n = 186
         \<or> (188 \<le> n \<and> n \<le> 190) \<or> (192 \<le> n \<and> n \<le> 214)
         \<or> (216 \<le> n \<and> n \<le> 246) \<or> 248 \<le> n)"

text \<open>\<open>s.strip()\<close>, \<open>s.startswith(p)\<close>, \<open>s.endswith(p)\<close> and
  \<open>s.replace(c, '')\<close> for a one-character \<open>c\<close>.\<close>

definition strip :: "string \<Rightarrow> string" where
  "strip s = rev (dropWhile is_space (rev (dropWhile is_space s)))"

definition startswith :: "string \<Rightarrow> string \<Rightarrow> bool" where
  "startswith s p = prefix p s"

definition endswith :: "string \<Rightarrow> string \<Rightarrow> bool" where
  "endswith s p = prefix (rev p) (rev s)"

definition remove_char :: "char \<Rightarrow> string \<Rightarrow> string" where
  "remove_char c s = filter (\<lambda>x. x \<noteq> c) s"

section \<open>The regular expressions of the module \<open>re\<close>\<close>

text \<open>
  The part of Python's pattern language that the program uses: literal text, a character
  class, the greedy quantifiers \<open>*\<close> and \<open>+\<close> and the lazy \<open>*?\<close> on one
  character class, an optional group \<open>(...)?\<close>, capture groups, concatenation and the
  anchors \<open>^\<close> and \<open>$\<close>. A class is a predicate on characters.
\<close>

datatype regex =
    Lit string
  | Cls "char \<Rightarrow> bool"
  | Star "char \<Rightarrow> bool"
  | Plus "char \<Rightarrow> bool"
  | LazyStar "char \<Rightarrow> bool"
  | Opt regex
  | Grp nat regex
  | Seq regex regex
  | Bol
  | Eol

text \<open>The dot without and with the flag \<open>re.S\<close>.\<close>

definition dot :: "char \<Rightarrow> bool" where
  "dot c = (c \<noteq> NL)"

definition dotall :: "char \<Rightarrow> bool" where
  "dotall c = True"

text \<open>
  Python's matcher backtracks: it tries the alternatives of every quantifier in a fixed
  order and returns the first complete match. \<open>rx r (p, s, g)\<close> lists, in that order,
  every way to match \<open>r\<close> at offset \<open>p\<close>, where \<open>s\<close> is the text from \<open>p\<close> on and
  \<open>g\<close> holds the groups captured so far (slot \<open>n\<close> for group \<open>n\<close>, slot 0 unused);
  each result is the offset after the match, the text left and the groups. The head of
  the list is the match Python reports.
\<close>

type_synonym groups = "string option list"

type_synonym mstate = "nat \<times> string \<times> groups"

definition advance :: "mstate \<Rightarrow> nat \<Rightarrow> mstate" where
  "advance st n = (case st of (p, s, g) \<Rightarrow> (p + n, drop n s, g))"

fun rx :: "regex \<Rightarrow> mstate \<Rightarrow> mstate list" where
  "rx (Lit l) (p, s, g) = (if prefix l s then [advance (p, s, g) (length l)] else [])"
| "rx (Cls c) (p, s, g) =
     (case s of [] \<Rightarrow> [] | x # xs \<Rightarrow> if c x then [(Suc p, xs, g)] else [])"
| "rx (Star c) (p, s, g) =
     map (advance (p, s, g)) (rev [0 ..< Suc (length (takeWhile c s))])"
| "rx (Plus c) (p, s, g) =
     map (advance (p, s, g)) (rev [1 ..< Suc (length (takeWhile c s))])"
| "rx (LazyStar c) (p, s, g) =
     map (advance (p, s, g)) [0 ..< Suc (length (takeWhile c s))]"
| "rx (Opt r) (p, s, g) = rx r (p, s, g) @ [(p, s, g)]"
| "rx (Grp n r) (p, s, g) =
     map (\<lambda>(p', s', g'). (p', s', g'[n := Some (take (p' - p) s)])) (rx r (p, s, g))"
| "rx (Seq a b) (p, s, g) = concat (map (rx b) (rx a (p, s, g)))"
| "rx Bol (p, s, g) = (if p = 0 then [(p, s, g)] else [])"
| "rx Eol (p, s, g) = (if s = [] \<or> s = [NL] then [(p, s, g)] else [])"

primrec ngroups :: "regex \<Rightarrow> nat" where
  "ngroups (Lit l) = 0"
| "ngroups (Cls c) = 0"
| "ngroups (Star c) = 0"
| "ngroups (Plus c) = 0"
| "ngroups (LazyStar c) = 0"
| "ngroups (Opt r) = ngroups r"
| "ngroups (Grp n r) = max n (ngroups r)"
| "ngroups (Seq a b) = max (ngroups a) (ngroups b)"
| "ngroups Bol = 0"
| "ngroups Eol = 0"

definition no_groups :: "regex \<Rightarrow> groups" where
  "no_groups r = replicate (Suc (ngroups r)) None"

text \<open>\<open>match_at r p s\<close>: the first match of \<open>r\<close> at offset \<open>p\<close>, where \<open>s\<close> is
  the text from \<open>p\<close> on: the offset after the match and the groups.\<close>

definition match_at :: "regex \<Rightarrow> nat \<Rightarrow> string \<Rightarrow> (nat \<times> groups) option" where
  "match_at r p s =
     (case rx r (p, s, no_groups r) of [] \<Rightarrow> None | (p', s', g) # _ \<Rightarrow> Some (p', g))"

text \<open>\<open>re.match(r, s)\<close> matches at the start of \<open>s\<close>; \<open>m.groups()\<close> is the list
  of the groups from 1 on, \<open>None\<close> for a group that took no part in the match.\<close>

definition re_match :: "regex \<Rightarrow> string \<Rightarrow> groups option" where
  "re_match r s = map_option (\<lambda>(p, g). tl g) (match_at r 0 s)"

text \<open>
  A replacement template: literal text and group references \<open>\1\<close>. A group that took
  no part in the match is replaced by the empty string.
\<close>

datatype tpl = TLit string | TGrp nat

fun expand :: "tpl list \<Rightarrow> groups \<Rightarrow> string" where
  "expand [] g = []"
| "expand (TLit l # t) g = l @ expand t g"
| "expand (TGrp n # t) g =
     (case (if n < length g then g ! n else None) of None \<Rightarrow> [] | Some x \<Rightarrow> x) @ expand t g"

text \<open>
  \<open>re.sub(r, t, s)\<close> replaces the leftmost non-overlapping matches of \<open>r\<close> in \<open>s\<close>:
  it looks for a match at each offset in turn, and after a match goes on from its end.
  No pattern of the program matches the empty string; for an empty match the function
  does what Python 3.7 does when the empty match is the only one at that offset (the
  replacement, then the next character copied).
\<close>

function sub_from :: "regex \<Rightarrow> tpl list \<Rightarrow> nat \<Rightarrow> string \<Rightarrow> string" where
  "sub_from r t p [] = (case match_at r p [] of None \<Rightarrow> [] | Some (p', g) \<Rightarrow> expand t g)"
| "sub_from r t p (c # cs) =
     (case match_at r p (c # cs) of
        None \<Rightarrow> c # sub_from r t (Suc p) cs
      | Some (p', g) \<Rightarrow>
          if p < p' then expand t g @ sub_from r t p' (drop (p' - p) (c # cs))
          else expand t g @ c # sub_from r t (Suc p) cs)"
  by pat_completeness auto
termination
  by (relation "measure (\<lambda>(r, t, p, s). length s)") auto

definition re_sub :: "regex \<Rightarrow> tpl list \<Rightarrow> string \<Rightarrow> string" where
  "re_sub r t s = sub_from r t 0 s"

section \<open>Text transformations\<close>

text \<open>
  \<^verbatim>\<open>
  def indent(text, columns, indent_first_line=True):
    indent = ' ' * columns
    s = re.sub(r'\n([^\n])', '\n' + indent + '\\1', text, flags=re.S)
    if not indent_first_line or s.startswith('\n'):
      return s
    return indent + s
  \<close>
  \<open>' ' * columns\<close> is the empty string for a negative \<open>columns\<close>.
\<close>

definition spaces :: "int \<Rightarrow> string" where
  "spaces columns = replicate (nat columns) CHR '' ''"

definition indent_pattern :: regex where
  "indent_pattern = Seq (Lit [NL]) (Grp 1 (Cls (\<lambda>c. c \<noteq> NL)))"

definition indent :: "string \<Rightarrow> int \<Rightarrow> bool \<Rightarrow> string" where
  "indent text columns indent_first_line =
     (let ind = spaces columns;
          s = re_sub indent_pattern [TLit (NL # ind), TGrp 1] text
      in if \<not> indent_first_line \<or> startswith s [NL] then s else ind @ s)"

text \<open>
  \<^verbatim>\<open>
  def doxygen2rst(text):
    text = re.sub(r'<tt>\s*(.*?)\s*<\/tt>', r'``\1``', text)
    text = re.sub(r'\\c ([^ ,;\.]+)', r'``\1``', text)
    text = re.sub(r'\\\w+ ', '', text)
    return text
  \<close>
\<close>

definition tt_pattern :: regex where
  "tt_pattern =
     Seq (Lit ''<tt>'') (Seq (Star is_space) (Seq (Grp 1 (LazyStar dot))
       (Seq (Star is_space) (Lit ''</tt>''))))"

definition c_pattern :: regex where
  "c_pattern =
     Seq (Lit [BSL, CHR ''c'', CHR '' ''])
       (Grp 1 (Plus (\<lambda>c. c \<notin> {CHR '' '', CHR '','', CHR '';'', CHR ''.''})))"

definition command_pattern :: regex where
  "command_pattern = Seq (Lit [BSL]) (Seq (Plus is_word) (Lit '' ''))"

definition doxygen2rst :: "string \<Rightarrow> string" where
  "doxygen2rst text =
     (let text1 = re_sub tt_pattern [TLit ''``'', TGrp 1, TLit ''``''] text;
          text2 = re_sub c_pattern [TLit ''``'', TGrp 1, TLit ''``''] text1
      in re_sub command_pattern [] text2)"

section \<open>The string formatting operator\<close>

text \<open>
  \<open>format % arg\<close> for an argument that is one string (not a tuple, not a mapping),
  after \<open>PyUnicode_Format\<close> of CPython 3.11. A conversion specifier is \<open>%\<close>, flags
  (\<open>-+ #0\<close>), a width (digits or \<open>*\<close>), a precision (\<open>.\<close> with digits or
  \<open>*\<close>), one length modifier (\<open>h\<close>, \<open>l\<close>, \<open>L\<close>) and the conversion character;
  \<open>%%\<close> is a percent sign. The one argument serves one conversion: a second one raises
  \<open>TypeError\<close> (not enough arguments), and so does a format that leaves it unused (not
  all arguments converted).
\<close>

datatype error = Exception string | TypeError | ValueError | AttributeError

definition is_digit :: "char \<Rightarrow> bool" where
  "is_digit c = (48 \<le> code c \<and> code c \<le> 57)"

definition number :: "string \<Rightarrow> nat" where
  "number ds = foldl (\<lambda>n d. 10 * n + (code d - 48)) 0 ds"

fun skip_flags :: "string \<Rightarrow> bool \<Rightarrow> bool \<times> string" where
  "skip_flags [] ljust = (ljust, [])"
| "skip_flags (c # cs) ljust =
     (if c = CHR ''-'' then skip_flags cs True
      else if c \<in> {CHR ''+'', CHR '' '', CHR ''#'', CHR ''0''} then skip_flags cs ljust
      else (ljust, c # cs))"

text \<open>\<open>repr\<close> and \<open>ascii\<close> of a string: the quote is \<open>"\<close> when the string has a
  \<open>'\<close> and no \<open>"\<close>, else \<open>'\<close>; \<open>ascii\<close> escapes every character from 128 on.\<close>

definition printable :: "char \<Rightarrow> bool" where
  "printable c = (let n = code c in (32 \<le> n \<and> n < 127) \<or> (161 \<le> n \<and> n \<noteq> 173))"

definition hex2 :: "nat \<Rightarrow> string" where
  "hex2 n = [''0123456789abcdef'' ! (n div 16 mod 16), ''0123456789abcdef'' ! (n mod 16)]"

definition repr_char :: "bool \<Rightarrow> char \<Rightarrow> char \<Rightarrow> string" where
  "repr_char ascii_only quote c =
     (if c = quote \<or> c = BSL then [BSL, c]
      else if c = CHR 0x09 then [BSL, CHR ''t'']
      else if c = NL then [BSL, CHR ''n'']
      else if c = CHR 0x0D then [BSL, CHR ''r'']
      else if printable c \<and> (code c < 128 \<or> \<not> ascii_only) then [c]
      else [BSL, CHR ''x''] @ hex2 (code c))"

definition py_repr :: "bool \<Rightarrow> string \<Rightarrow> string" where
  "py_repr ascii_only s =
     (let quote = (if CHR 0x27 \<in> set s \<and> CHR 0x22 \<notin> set s then CHR 0x22 else CHR 0x27)
      in quote # concat (map (repr_char ascii_only quote) s) @ [quote])"

text \<open>The output of a conversion: the precision cuts the text of \<open>s\<close>, \<open>r\<close> and
  \<open>a\<close>, the width pads with spaces, on the right with the flag \<open>-\<close>.\<close>

definition pad :: "bool \<Rightarrow> nat option \<Rightarrow> string \<Rightarrow> string" where
  "pad ljust width s =
     (let fill = replicate (case width of None \<Rightarrow> 0 | Some w \<Rightarrow> w - length s) CHR '' ''
      in if ljust then s @ fill else fill @ s)"

definition cut :: "nat option \<Rightarrow> string \<Rightarrow> string" where
  "cut prec s = (case prec of None \<Rightarrow> s | Some n \<Rightarrow> take n s)"

definition convert :: "char \<Rightarrow> bool \<Rightarrow> nat option \<Rightarrow> nat option \<Rightarrow> string \<Rightarrow> error + string" where
  "convert c ljust width prec arg =
     (if c = CHR ''s'' then Inr (pad ljust width (cut prec arg))
      else if c = CHR ''r'' then Inr (pad ljust width (cut prec (py_repr False arg)))
      else if c = CHR ''a'' then Inr (pad ljust width (cut prec (py_repr True arg)))
      else if c \<in> set ''iduoxXeEfFgG'' then Inl TypeError
      else if c = CHR ''c'' then (if length arg = 1 then Inr (pad ljust width arg) else Inl TypeError)
      else Inl ValueError)"

text \<open>
  \<open>format_arg s used arg\<close> reads one specifier, \<open>s\<close> being the format after its
  \<open>%\<close> and \<open>used\<close> telling whether the argument has served: the text it writes,
  the new \<open>used\<close> and the format left. The order of the checks is CPython's: a mapping
  key \<open>(\<close> and a \<open>*\<close> raise \<open>TypeError\<close>, a width beyond \<open>PY_SSIZE_T_MAX\<close> or a
  precision beyond \<open>INT_MAX\<close> \<open>ValueError\<close>, a format that ends inside the specifier
  \<open>ValueError\<close>; the argument is fetched before the conversion character is looked at.
\<close>

definition format_arg :: "string \<Rightarrow> bool \<Rightarrow> string \<Rightarrow> error + (string \<times> bool \<times> string)" where
  "format_arg s used arg =
     (if startswith s ''%'' then Inr (''%'', used, tl s)
      else if startswith s ''('' then Inl TypeError
      else
        let (ljust, s1) = skip_flags s False in
        if startswith s1 ''*'' then Inl TypeError
        else
          let wd = takeWhile is_digit s1;
              s2 = dropWhile is_digit s1;
              width = (if wd = [] then None else Some (number wd)) in
          if 9223372036854775807 < number wd then Inl ValueError
          else
            let s3 = (if startswith s2 ''.'' then tl s2 else s2) in
            if startswith s2 ''.'' \<and> startswith s3 ''*'' then Inl TypeError
            else
              let pd = (if startswith s2 ''.'' then takeWhile is_digit s3 else []);
                  s4 = (if startswith s2 ''.'' then dropWhile is_digit s3 else s3);
                  prec = (if startswith s2 ''.'' then Some (number pd) else None) in
              if 2147483647 < number pd then Inl ValueError
              else
                let s5 = (if s4 \<noteq> [] \<and> hd s4 \<in> set ''hlL'' then tl s4 else s4) in
                (case s5 of
                   [] \<Rightarrow> Inl ValueError
                 | c # rest \<Rightarrow>
                     if used then Inl TypeError
                     else (case convert c ljust width prec arg of
                             Inl e \<Rightarrow> Inl e
                           | Inr out \<Rightarrow> Inr (out, True, rest))))"

lemma skip_flags_length: "length (snd (skip_flags s ljust)) \<le> length s"
  by (induction s ljust rule: skip_flags.induct) auto

lemma format_arg_length:
  assumes "format_arg s used arg = Inr (out, used', rest)"
  shows "length rest < Suc (length s)"
proof -
  obtain ljust s1 where sf: "skip_flags s False = (ljust, s1)"
    by (cases "skip_flags s False")
  have l1: "length s1 \<le> length s"
    using skip_flags_length [of s False] sf by simp
  have l2: "length (dropWhile is_digit s1) \<le> length s1"
    by (rule length_dropWhile_le)
  have l3: "length (dropWhile is_digit (tl (dropWhile is_digit s1))) \<le> length (dropWhile is_digit s1) - 1"
    using length_dropWhile_le [of is_digit "tl (dropWhile is_digit s1)"] by simp
  show ?thesis
    using assms l1 l2 l3
    by (auto simp: format_arg_def Let_def sf split: if_splits list.splits sum.splits
          dest!: arg_cong [where f = length])
qed

text \<open>\<open>py_format_from s used arg\<close> formats the rest \<open>s\<close> of the format; at its end
  the argument must have served.\<close>

function py_format_from :: "string \<Rightarrow> bool \<Rightarrow> string \<Rightarrow> error + string" where
  "py_format_from [] used arg = (if used then Inr [] else Inl TypeError)"
| "py_format_from (c # cs) used arg =
     (if c \<noteq> CHR ''%'' then
        (case py_format_from cs used arg of Inl e \<Rightarrow> Inl e | Inr out \<Rightarrow> Inr (c # out))
      else
        (case format_arg cs used arg of
           Inl e \<Rightarrow> Inl e
         | Inr (text, used', rest) \<Rightarrow>
             (case py_format_from rest used' arg of
                Inl e \<Rightarrow> Inl e
              | Inr out \<Rightarrow> Inr (text @ out))))"
  by pat_completeness auto
termination
  by (relation "measure (\<lambda>(s, used, arg). length s)") (auto dest: format_arg_length)

definition py_format :: "string \<Rightarrow> string \<Rightarrow> error + string" where
  "py_format s arg = py_format_from s False arg"

section \<open>The substitution of a tagged region\<close>

text \<open>
  \<^verbatim>\<open>
  def substitute(text, tag, contents):
    replacement = '\n.. START_%s\n\n%s\n\n.. END_%s\n' % (tag, contents, tag)
    pattern = r'\n\.\. START_%s\n.*\n\.\. END_%s\n' % (tag, tag)
    return re.sub(pattern, '%s', text, flags=re.S) % replacement
  \<close>
  The tag goes into the pattern as it is, so a tag with a character that is special in a
  pattern would not stand for itself there. \<open>substitute_pattern\<close> is the pattern for a
  tag without such a character (\<open>plain_tag\<close>), which is what the statements on
  \<open>substitute\<close> assume.
\<close>

definition plain_tag :: "string \<Rightarrow> bool" where
  "plain_tag tag = list_all (\<lambda>c. c \<notin> set ''.^$*+?{}[]|()'' \<and> c \<noteq> BSL) tag"

definition start_marker :: "string \<Rightarrow> string" where
  "start_marker tag = NL # ''.. START_'' @ tag @ [NL]"

definition end_marker :: "string \<Rightarrow> string" where
  "end_marker tag = NL # ''.. END_'' @ tag @ [NL]"

definition substitute_pattern :: "string \<Rightarrow> regex" where
  "substitute_pattern tag =
     Seq (Lit (start_marker tag)) (Seq (Star dotall) (Lit (end_marker tag)))"

definition substitute :: "string \<Rightarrow> string \<Rightarrow> string \<Rightarrow> error + string" where
  "substitute text tag contents =
     (let replacement =
            NL # ''.. START_'' @ tag @ [NL, NL] @ contents @ [NL, NL] @ ''.. END_'' @ tag @ [NL]
      in py_format (re_sub (substitute_pattern tag) [TLit ''%s''] text) replacement)"

section \<open>The model classes\<close>

text \<open>
  The classes \<open>Option\<close>, \<open>Enum\<close>, \<open>EnumValue\<close>, \<open>NestedStruct\<close> and
  \<open>NestedField\<close> as records, each field under the name of its class. The constructors
  of \<open>Option\<close>, \<open>Enum\<close>, \<open>NestedStruct\<close> and \<open>NestedField\<close> strip the comment,
  the one of \<open>EnumValue\<close> keeps it.
\<close>

record EnumValue =
  enumvalue_name :: string
  enumvalue_comment :: string

record Enum =
  enum_name :: string
  enum_comment :: string
  enum_values :: "EnumValue list"

record NestedField =
  nestedfield_name :: string
  nestedfield_comment :: string

record NestedStruct =
  nestedstruct_name :: string
  nestedstruct_comment :: string
  nestedstruct_values :: "NestedField list"

record FormatOption =
  option_name :: string
  option_type :: string
  option_comment :: string
  option_enum :: "Enum option"
  option_nested_struct :: "NestedStruct option"

definition new_Option :: "string \<Rightarrow> string \<Rightarrow> string \<Rightarrow> FormatOption" where
  "new_Option name type comment =
     \<lparr>option_name = name, option_type = type, option_comment = strip comment,
      option_enum = None, option_nested_struct = None\<rparr>"

definition new_Enum :: "string \<Rightarrow> string \<Rightarrow> Enum" where
  "new_Enum name comment = \<lparr>enum_name = name, enum_comment = strip comment, enum_values = []\<rparr>"

definition new_NestedStruct :: "string \<Rightarrow> string \<Rightarrow> NestedStruct" where
  "new_NestedStruct name comment =
     \<lparr>nestedstruct_name = name, nestedstruct_comment = strip comment, nestedstruct_values = []\<rparr>"

definition new_NestedField :: "string \<Rightarrow> string \<Rightarrow> NestedField" where
  "new_NestedField name comment =
     \<lparr>nestedfield_name = name, nestedfield_comment = strip comment\<rparr>"

definition new_EnumValue :: "string \<Rightarrow> string \<Rightarrow> EnumValue" where
  "new_EnumValue name comment = \<lparr>enumvalue_name = name, enumvalue_comment = comment\<rparr>"

text \<open>
  \<^verbatim>\<open>
  def __str__(self):
    return '* ``%s`` (in configuration: ``%s``)\n%s' % (
        self.name,
        re.sub('.*_', '', self.name),
        doxygen2rst(indent(self.comment, 2)))
  \<close>
\<close>

definition config_pattern :: regex where
  "config_pattern = Seq (Star dot) (Lit ''_'')"

definition config_name :: "string \<Rightarrow> string" where
  "config_name name = re_sub config_pattern [] name"

definition EnumValue_str :: "EnumValue \<Rightarrow> string" where
  "EnumValue_str v =
     ''* ``'' @ enumvalue_name v @ ''`` (in configuration: ``'' @ config_name (enumvalue_name v)
       @ ''``)'' @ [NL] @ doxygen2rst (indent (enumvalue_comment v) 2 True)"

section \<open>The parser\<close>

fun cat :: "regex list \<Rightarrow> regex" where
  "cat [] = Lit []"
| "cat [r] = r"
| "cat (r # rs) = Seq r (cat rs)"

text \<open>
  \<^verbatim>\<open>
  def clean_comment_line(line):
    match = re.match(r'^/// \\code(\{.(\w+)\})?$', line)
    if match:
      lang = match.groups()[1]
      if not lang:
        lang = 'c++'
      return '\n.. code-block:: %s\n\n' % lang
    if line == '/// \\endcode':
      return ''
    return line[4:] + '\n'
  \<close>
\<close>

definition code_pattern :: regex where
  "code_pattern =
     cat [Bol, Lit (''/// '' @ [BSL] @ ''code''),
          Opt (Grp 1 (cat [Lit ''{'', Cls dot, Grp 2 (Plus is_word), Lit ''}''])), Eol]"

definition clean_comment_line :: "string \<Rightarrow> string" where
  "clean_comment_line line =
     (case re_match code_pattern line of
        Some g \<Rightarrow>
          (let lang = (case g ! 1 of None \<Rightarrow> ''c++'' | Some l \<Rightarrow> if l = [] then ''c++'' else l)
           in [NL] @ ''.. code-block:: '' @ lang @ [NL, NL])
      | None \<Rightarrow>
          if line = ''/// '' @ [BSL] @ ''endcode'' then [] else drop 4 line @ [NL])"

text \<open>The patterns of the block headers and of a field:
  \<^verbatim>\<open>enum\s+(\w+)\s*(:\s*\w+\s*)?\{\<close>, \<^verbatim>\<open>struct\s+(\w+)\s*\{\<close> and
  \<^verbatim>\<open>([<>:\w(,\s)]+)\s+(\w+);\<close>.\<close>

definition enum_pattern :: regex where
  "enum_pattern =
     cat [Lit ''enum'', Plus is_space, Grp 1 (Plus is_word), Star is_space,
          Opt (Grp 2 (cat [Lit '':'', Star is_space, Plus is_word, Star is_space])), Lit ''{'']"

definition struct_pattern :: regex where
  "struct_pattern =
     cat [Lit ''struct'', Plus is_space, Grp 1 (Plus is_word), Star is_space, Lit ''{'']"

definition field_pattern :: regex where
  "field_pattern =
     cat [Grp 1 (Plus (\<lambda>c. c \<in> set ''<>:(,)'' \<or> is_word c \<or> is_space c)), Plus is_space,
          Grp 2 (Plus is_word), Lit '';'']"

text \<open>\<open>str(x)\<close> of a group: the text, or \<open>None\<close> for a group that took no part.\<close>

definition group_str :: "groups \<Rightarrow> nat \<Rightarrow> string" where
  "group_str g n = (case g ! n of None \<Rightarrow> ''None'' | Some x \<Rightarrow> x)"

text \<open>
  The states of \<open>read_options\<close> and its local variables. The variables \<open>enum\<close> and
  \<open>nested_struct\<close> are \<open>cur_enum\<close> and \<open>cur_nested_struct\<close> here; they start as
  \<open>None\<close>, on which reading \<open>.name\<close> or \<open>.values\<close> raises \<open>AttributeError\<close>, as
  does \<open>.groups()\<close> on a failed match. The dictionaries hold the objects themselves in
  Python; an object is registered when its block is closed and a new one is made when the
  next block opens, so no registered object changes and the model holds values.
\<close>

datatype State =
    BeforeStruct | Finished | InStruct | InNestedStruct | InNestedFieldComent
  | InFieldComment | InEnum | InEnumMemberComment

record vars =
  state :: State
  options :: "FormatOption list"
  enums :: "string \<rightharpoonup> Enum"
  nested_structs :: "string \<rightharpoonup> NestedStruct"
  comment :: string
  cur_enum :: "Enum option"
  cur_nested_struct :: "NestedStruct option"

definition init_vars :: vars where
  "init_vars =
     \<lparr>state = BeforeStruct, options = [], enums = Map.empty, nested_structs = Map.empty,
      comment = [], cur_enum = None, cur_nested_struct = None\<rparr>"

text \<open>What the body of the loop does with one line: go on to the next line, leave the
  loop (\<open>break\<close>) or raise.\<close>

datatype flow = Next vars | Break vars | Raise error

definition in_field_comment :: "vars \<Rightarrow> string \<Rightarrow> flow" where
  "in_field_comment v line =
     (if startswith line ''///'' then
        Next (v\<lparr>comment := comment v @ clean_comment_line line\<rparr>)
      else if startswith line ''enum'' then
        Next (v\<lparr>state := InEnum,
                cur_enum := Some (new_Enum (re_sub enum_pattern [TGrp 1] line) (comment v))\<rparr>)
      else if startswith line ''struct'' then
        Next (v\<lparr>state := InNestedStruct,
                cur_nested_struct :=
                  Some (new_NestedStruct (re_sub struct_pattern [TGrp 1] line) (comment v))\<rparr>)
      else if startswith line ''//'' \<and> endswith line '';'' then
        Next (v\<lparr>state := InStruct\<rparr>)
      else if endswith line '';'' then
        (case re_match field_pattern line of
           None \<Rightarrow> Raise AttributeError
         | Some g \<Rightarrow>
             Next (v\<lparr>state := InStruct,
                     options := options v @ [new_Option (group_str g 1) (group_str g 0) (comment v)]\<rparr>))
      else Raise (Exception ''Invalid format, expected comment, field or enum''))"

definition step :: "vars \<Rightarrow> string \<Rightarrow> flow" where
  "step v line =
     (case state v of
        BeforeStruct \<Rightarrow>
          if line = ''struct FormatStyle {'' \<or> line = ''struct IncludeStyle {''
          then Next (v\<lparr>state := InStruct\<rparr>) else Next v
      | InStruct \<Rightarrow>
          if startswith line ''///'' then
            Next (v\<lparr>state := InFieldComment, comment := clean_comment_line line\<rparr>)
          else if line = ''};'' then Break (v\<lparr>state := Finished\<rparr>)
          else Next v
      | InFieldComment \<Rightarrow> in_field_comment v line
      | InNestedStruct \<Rightarrow>
          if startswith line ''///'' then
            Next (v\<lparr>state := InNestedFieldComent, comment := clean_comment_line line\<rparr>)
          else if line = ''};'' then
            (case cur_nested_struct v of
               None \<Rightarrow> Raise AttributeError
             | Some n \<Rightarrow>
                 Next (v\<lparr>state := InStruct,
                         nested_structs := (nested_structs v)(nestedstruct_name n \<mapsto> n)\<rparr>))
          else Next v
      | InNestedFieldComent \<Rightarrow>
          if startswith line ''///'' then
            Next (v\<lparr>comment := comment v @ clean_comment_line line\<rparr>)
          else
            (case cur_nested_struct v of
               None \<Rightarrow> Raise AttributeError
             | Some n \<Rightarrow>
                 Next (v\<lparr>state := InNestedStruct,
                         cur_nested_struct :=
                           Some (n\<lparr>nestedstruct_values := nestedstruct_values n
                                     @ [new_NestedField (remove_char CHR '';'' line) (comment v)]\<rparr>)\<rparr>))
      | InEnum \<Rightarrow>
          if startswith line ''///'' then
            Next (v\<lparr>state := InEnumMemberComment, comment := clean_comment_line line\<rparr>)
          else if line = ''};'' then
            (case cur_enum v of
               None \<Rightarrow> Raise AttributeError
             | Some e \<Rightarrow> Next (v\<lparr>state := InStruct, enums := (enums v)(enum_name e \<mapsto> e)\<rparr>))
          else if line = [] then Next v
          else Raise (Exception ''Invalid format, expected enum field comment or };'')
      | InEnumMemberComment \<Rightarrow>
          if startswith line ''///'' then
            Next (v\<lparr>comment := comment v @ clean_comment_line line\<rparr>)
          else
            (case cur_enum v of
               None \<Rightarrow> Raise AttributeError
             | Some e \<Rightarrow>
                 Next (v\<lparr>state := InEnum,
                         cur_enum :=
                           Some (e\<lparr>enum_values := enum_values e
                                     @ [new_EnumValue (remove_char CHR '','' line) (comment v)]\<rparr>)\<rparr>))
      | Finished \<Rightarrow> Next v)"

text \<open>The loop \<open>for line in header\<close>, the header being the list of its lines.\<close>

fun scan :: "vars \<Rightarrow> string list \<Rightarrow> error + vars" where
  "scan v [] = Inr v"
| "scan v (line # rest) =
     (case step v (strip line) of
        Raise e \<Rightarrow> Inl e
      | Break v' \<Rightarrow> Inr v'
      | Next v' \<Rightarrow> scan v' rest)"

text \<open>The second loop, which gives every option of an unknown type its enumeration or
  its nested structure.\<close>

fun resolve ::
  "(string \<Rightarrow> bool) \<Rightarrow> (string \<rightharpoonup> Enum) \<Rightarrow> (string \<rightharpoonup> NestedStruct) \<Rightarrow> FormatOption list
     \<Rightarrow> error + FormatOption list" where
  "resolve known es ns [] = Inr []"
| "resolve known es ns (opt # opts) =
     (if \<not> known (option_type opt) then
        (case es (option_type opt) of
           Some e \<Rightarrow>
             (case resolve known es ns opts of
                Inl err \<Rightarrow> Inl err
              | Inr opts' \<Rightarrow> Inr (opt\<lparr>option_enum := Some e\<rparr> # opts'))
         | None \<Rightarrow>
             (case ns (option_type opt) of
                Some n \<Rightarrow>
                  (case resolve known es ns opts of
                     Inl err \<Rightarrow> Inl err
                   | Inr opts' \<Rightarrow> Inr (opt\<lparr>option_nested_struct := Some n\<rparr> # opts'))
              | None \<Rightarrow> Inl (Exception (''Unknown type: '' @ option_type opt))))
      else
        (case resolve known es ns opts of
           Inl err \<Rightarrow> Inl err
         | Inr opts' \<Rightarrow> Inr (opt # opts')))"

definition read_options :: "string list \<Rightarrow> (string \<Rightarrow> bool) \<Rightarrow> error + FormatOption list" where
  "read_options header isknownoptiontype_func =
     (case scan init_vars header of
        Inl e \<Rightarrow> Inl e
      | Inr v \<Rightarrow>
          if state v \<noteq> Finished then Inl (Exception ''Not finished by the end of file'')
          else resolve isknownoptiontype_func (enums v) (nested_structs v) (options v))"

section \<open>Indentation of the empty text\<close>

lemma re_sub_indent_Nil: "re_sub indent_pattern t [] = []"
  by (simp add: re_sub_def match_at_def indent_pattern_def)

text \<open>
  Claim C9, as stated: \<open>indent\<close> of the empty string returns it unchanged for every width
  and every \<open>indent_first_line\<close>. It fails: with \<open>indent_first_line\<close> true and width 2
  the result is two spaces.
\<close>

theorem indent_empty_counterexample: "indent [] 2 True \<noteq> []"
  by (simp add: indent_def re_sub_def match_at_def indent_pattern_def startswith_def spaces_def)

text \<open>
  Claim C9, amended: \<open>indent\<close> of the empty string is the empty string when
  \<open>indent_first_line\<close> is false, and the prefix of \<open>columns\<close> spaces (nothing for a
  width of zero or less) when it is true.
\<close>

theorem indent_empty:
  "indent [] columns indent_first_line = (if indent_first_line then spaces columns else [])"
  by (simp add: indent_def re_sub_indent_Nil startswith_def)

theorem indent_empty_witness: "indent [] 2 True = ''  '' \<and> indent [] 2 False = []"
  using indent_empty [of 2 True] indent_empty [of 2 False]
  by (simp add: spaces_def numeral_2_eq_2)

section \<open>Unexpected lines inside a block\<close>

text \<open>
  Claim C5, as stated: in the state \<open>InEnum\<close> and in the state \<open>InNestedStruct\<close> a line
  that is no documentation line, not \<open>};\<close> and (for \<open>InEnum\<close>) not blank raises. It
  fails for \<open>InNestedStruct\<close>, whose branch has no \<open>else\<close>: the line \<open>junk\<close> is
  skipped.
\<close>

theorem nested_struct_junk_counterexample:
  "step (init_vars\<lparr>state := InNestedStruct\<rparr>) ''junk'' = Next (init_vars\<lparr>state := InNestedStruct\<rparr>)"
  by (simp add: step_def init_vars_def startswith_def)

text \<open>
  Claim C5, amended: in the state \<open>InEnum\<close> a line that, stripped, is no documentation
  line, not \<open>};\<close> and not empty raises the format error, which ends the loop; in the
  state \<open>InNestedStruct\<close> a line that is no documentation line and not \<open>};\<close> raises
  nothing and changes nothing: the loop goes on with the next line.
\<close>

theorem block_states_other_line:
  "(state v = InEnum \<and> \<not> startswith (strip line) ''///'' \<and> strip line \<noteq> ''};'' \<and> strip line \<noteq> []
      \<longrightarrow> step v (strip line) = Raise (Exception ''Invalid format, expected enum field comment or };'')
        \<and> scan v (line # rest) = Inl (Exception ''Invalid format, expected enum field comment or };''))
   \<and> (state v = InNestedStruct \<and> \<not> startswith (strip line) ''///'' \<and> strip line \<noteq> ''};''
      \<longrightarrow> step v (strip line) = Next v \<and> scan v (line # rest) = scan v rest)"
  by (simp add: step_def)

theorem block_states_other_line_witness:
  "scan (init_vars\<lparr>state := InEnum\<rparr>) [''  junk  '', ''};'']
     = Inl (Exception ''Invalid format, expected enum field comment or };'')
   \<and> scan (init_vars\<lparr>state := InNestedStruct\<rparr>) [''  junk  '']
     = Inr (init_vars\<lparr>state := InNestedStruct\<rparr>)"
  using block_states_other_line [of "init_vars\<lparr>state := InEnum\<rparr>" "''  junk  ''" "[''};'']"]
    block_states_other_line [of "init_vars\<lparr>state := InNestedStruct\<rparr>" "''  junk  ''" "[]"]
  by (simp add: init_vars_def strip_def is_space_def code_def startswith_def)

section \<open>Deprecated fields\<close>

lemma comment_line_not_block:
  assumes "startswith l ''//''"
  shows "\<not> startswith l ''enum''" and "\<not> startswith l ''struct''"
  using assms by (cases l; simp add: startswith_def)+

lemma in_field_comment_deprecated:
  assumes "startswith l ''//''" "\<not> startswith l ''///''" "endswith l '';''"
  shows "in_field_comment v l = Next (v\<lparr>state := InStruct\<rparr>)"
  using assms comment_line_not_block [OF assms(1)] by (simp add: in_field_comment_def)

definition comment_dead :: "State \<Rightarrow> bool" where
  "comment_dead s = (s \<in> {BeforeStruct, InStruct, InNestedStruct, InEnum, Finished})"

definition forget_comment :: "vars \<Rightarrow> vars" where
  "forget_comment v = v\<lparr>comment := []\<rparr>"

lemma step_dead:
  assumes "comment_dead (state v)"
  shows "step (v\<lparr>comment := c\<rparr>) l =
     (case step v l of
        Next w \<Rightarrow> if comment_dead (state w) then Next (w\<lparr>comment := c\<rparr>) else Next w
      | Break w \<Rightarrow> Break (w\<lparr>comment := c\<rparr>)
      | Raise e \<Rightarrow> Raise e)"
  using assms by (cases "state v") (auto simp: step_def comment_dead_def split: option.splits)

lemma scan_dead:
  "comment_dead (state v) \<Longrightarrow>
     map_sum id forget_comment (scan (v\<lparr>comment := c\<rparr>) ls) = map_sum id forget_comment (scan v ls)"
proof (induction ls arbitrary: v)
  case Nil
  then show ?case by (simp add: forget_comment_def)
next
  case (Cons l ls)
  show ?case
  proof (cases "step v (strip l)")
    case (Next w)
    with Cons show ?thesis by (simp add: step_dead)
  next
    case (Break w)
    with Cons show ?thesis by (simp add: step_dead forget_comment_def)
  next
    case (Raise e)
    with Cons show ?thesis by (simp add: step_dead)
  qed
qed

text \<open>
  Claim C7: in the state \<open>InFieldComment\<close>, with a comment accumulated, a line that is
  a plain line comment (it starts with \<open>//\<close>, not with \<open>///\<close>) and ends in \<open>;\<close>
  takes the parser to \<open>InStruct\<close> and changes nothing else, so no option is appended;
  and the accumulated comment is dead from there on: apart from the variable \<open>comment\<close>
  itself, the rest of the loop gives what it would give with any other text \<open>c\<close> in
  that variable, so the comment reaches no later option, enumeration, nested structure
  or member.
\<close>

theorem deprecated_field_skipped:
  assumes "state v = InFieldComment"
    and "startswith (strip line) ''//''" and "\<not> startswith (strip line) ''///''"
    and "endswith (strip line) '';''"
  shows "step v (strip line) = Next (v\<lparr>state := InStruct\<rparr>)
    \<and> map_sum id forget_comment (scan v (line # rest))
      = map_sum id forget_comment (scan (v\<lparr>state := InStruct, comment := c\<rparr>) rest)"
proof -
  have st: "step v (strip line) = Next (v\<lparr>state := InStruct\<rparr>)"
    using assms by (simp add: step_def in_field_comment_deprecated)
  have "comment_dead (state (v\<lparr>state := InStruct\<rparr>))"
    by (simp add: comment_dead_def)
  from scan_dead [OF this, of c rest] st show ?thesis
    by simp
qed

theorem deprecated_field_skipped_witness:
  "step (init_vars\<lparr>state := InFieldComment, comment := ''doc''\<rparr>) (strip ''  // bool Old;  '')
     = Next (init_vars\<lparr>state := InStruct, comment := ''doc''\<rparr>)
   \<and> map_sum id forget_comment
        (scan (init_vars\<lparr>state := InFieldComment, comment := ''doc''\<rparr>) [''  // bool Old;  '', ''};''])
     = map_sum id forget_comment (scan (init_vars\<lparr>state := InStruct, comment := ''other''\<rparr>) [''};''])"
proof -
  have s: "strip ''  // bool Old;  '' = ''// bool Old;''"
    by code_simp
  have a: "startswith (strip ''  // bool Old;  '') ''//''"
    and b: "\<not> startswith (strip ''  // bool Old;  '') ''///''"
    and c: "endswith (strip ''  // bool Old;  '') '';''"
    unfolding s by (simp_all add: startswith_def endswith_def)
  have d: "state (init_vars\<lparr>state := InFieldComment, comment := ''doc''\<rparr>) = InFieldComment"
    by simp
  from deprecated_field_skipped [OF d a b c, of "[''};'']" "''other''"] show ?thesis
    by (simp del: scan.simps)
qed


section \<open>The end of the loop\<close>

lemma step_Break:
  "step v l = Break w \<Longrightarrow> state v = InStruct \<and> l = ''};'' \<and> w = v\<lparr>state := Finished\<rparr>"
  by (cases "state v")
    (auto simp: step_def in_field_comment_def split: if_splits option.splits)

lemma step_Next_not_Finished:
  "step v l = Next w \<Longrightarrow> state v \<noteq> Finished \<Longrightarrow> state w \<noteq> Finished"
  by (cases "state v")
    (auto simp: step_def in_field_comment_def split: if_splits option.splits)

lemma scan_Finished:
  "scan v ls = Inr w \<Longrightarrow> state w = Finished \<Longrightarrow> state v \<noteq> Finished \<Longrightarrow>
     \<exists>pre line rest u. ls = pre @ line # rest \<and> scan v pre = Inr u \<and> state u = InStruct
       \<and> strip line = ''};'' \<and> w = u\<lparr>state := Finished\<rparr>"
proof (induction ls arbitrary: v)
  case Nil
  then show ?case by simp
next
  case (Cons l ls)
  show ?case
  proof (cases "step v (strip l)")
    case (Next v')
    with Cons.prems have sc: "scan v' ls = Inr w" by simp
    have "state v' \<noteq> Finished"
      using Next Cons.prems(3) by (rule step_Next_not_Finished)
    from Cons.IH [OF sc Cons.prems(2) this]
    obtain pre line rest u where
      "ls = pre @ line # rest" "scan v' pre = Inr u" "state u = InStruct"
      "strip line = ''};''" "w = u\<lparr>state := Finished\<rparr>"
      by blast
    then have "l # ls = (l # pre) @ line # rest \<and> scan v (l # pre) = Inr u \<and> state u = InStruct
       \<and> strip line = ''};'' \<and> w = u\<lparr>state := Finished\<rparr>"
      using Next by simp
    then show ?thesis by blast
  next
    case (Break v')
    with Cons.prems have "w = v'" by simp
    with step_Break [OF Break]
    have "l # ls = [] @ l # ls \<and> scan v [] = Inr v \<and> state v = InStruct
       \<and> strip l = ''};'' \<and> w = v\<lparr>state := Finished\<rparr>"
      by simp
    then show ?thesis by blast
  next
    case (Raise e)
    with Cons.prems show ?thesis by simp
  qed
qed

lemma scan_no_closing:
  "scan v ls = Inr w \<Longrightarrow> state v \<noteq> Finished \<Longrightarrow> \<forall>line \<in> set ls. strip line \<noteq> ''};'' \<Longrightarrow>
     state w \<noteq> Finished"
  using scan_Finished [of v ls w] by auto

text \<open>
  Claim C3, as stated: for every header, \<open>read_options\<close> either reaches \<open>Finished\<close>
  and returns the option list or raises the incomplete-input error after the last line.
  It fails: a line that fits no shape in \<open>InFieldComment\<close> raises the format error,
  which is neither.
\<close>

theorem read_options_counterexample:
  "\<not> ((\<exists>opts. read_options [''struct FormatStyle {'', ''/// c'', ''garbage''] (\<lambda>t. True) = Inr opts)
      \<or> read_options [''struct FormatStyle {'', ''/// c'', ''garbage''] (\<lambda>t. True)
          = Inl (Exception ''Not finished by the end of file''))"
  by (simp add: read_options_def init_vars_def step_def in_field_comment_def strip_def
      is_space_def code_def startswith_def endswith_def)

text \<open>
  Claim C3, amended: for every header, when the loop raises, \<open>read_options\<close> raises that
  error; when the loop ends without raising, either the state is \<open>Finished\<close>, which
  means that a line \<open>};\<close> was read in the state \<open>InStruct\<close>, and the result is the
  one of the second loop (the option list, or its unknown-type error), or the state is
  not \<open>Finished\<close> and \<open>read_options\<close> raises the incomplete-input error. A header
  with no line \<open>};\<close> always raises.
\<close>

theorem read_options_outcome:
  "(case scan init_vars header of
      Inl e \<Rightarrow> read_options header known = Inl e
    | Inr v \<Rightarrow>
        if state v = Finished then
          (\<exists>pre line rest u. header = pre @ line # rest \<and> scan init_vars pre = Inr u
             \<and> state u = InStruct \<and> strip line = ''};'')
          \<and> read_options header known = resolve known (enums v) (nested_structs v) (options v)
        else read_options header known = Inl (Exception ''Not finished by the end of file''))
   \<and> ((\<forall>line \<in> set header. strip line \<noteq> ''};'') \<longrightarrow> (\<exists>e. read_options header known = Inl e))"
proof -
  have init: "state init_vars \<noteq> Finished"
    by (simp add: init_vars_def)
  show ?thesis
  proof (cases "scan init_vars header")
    case (Inl e)
    then show ?thesis by (simp add: read_options_def)
  next
    case (Inr v)
    show ?thesis
    proof (cases "state v = Finished")
      case True
      from scan_Finished [OF Inr True init]
      have ex: "\<exists>pre line rest u. header = pre @ line # rest \<and> scan init_vars pre = Inr u
             \<and> state u = InStruct \<and> strip line = ''};''"
        by blast
      then have "\<not> (\<forall>line \<in> set header. strip line \<noteq> ''};'')"
        by auto
      with ex Inr True show ?thesis
        by (auto simp: read_options_def)
    next
      case False
      with Inr show ?thesis by (simp add: read_options_def)
    qed
  qed
qed

theorem read_options_outcome_witness:
  "read_options [''struct FormatStyle {'', ''  /// c''] (\<lambda>t. True)
     = Inl (Exception ''Not finished by the end of file'')
   \<and> read_options [''struct FormatStyle {'', ''};''] (\<lambda>t. True) = Inr []"
proof -
  have s: "strip ''struct FormatStyle {'' = ''struct FormatStyle {''" "strip ''  /// c'' = ''/// c''"
    "strip ''};'' = ''};''"
    by code_simp+
  show ?thesis
    using read_options_outcome [of "[''struct FormatStyle {'', ''  /// c'']" "\<lambda>t. True"]
      read_options_outcome [of "[''struct FormatStyle {'', ''};'']" "\<lambda>t. True"]
    by (simp add: s init_vars_def step_def startswith_def)
qed


section \<open>The resolution of the option types\<close>

text \<open>An option is resolvable when its type is known or registered; \<open>attach\<close> is
  the option with what the claim says it gets: nothing for a known type, else the
  enumeration of that name, else the nested structure of that name.\<close>

definition resolvable ::
  "(string \<Rightarrow> bool) \<Rightarrow> (string \<rightharpoonup> Enum) \<Rightarrow> (string \<rightharpoonup> NestedStruct) \<Rightarrow> FormatOption \<Rightarrow> bool" where
  "resolvable known es ns opt =
     (known (option_type opt) \<or> es (option_type opt) \<noteq> None \<or> ns (option_type opt) \<noteq> None)"

definition attach ::
  "(string \<Rightarrow> bool) \<Rightarrow> (string \<rightharpoonup> Enum) \<Rightarrow> (string \<rightharpoonup> NestedStruct) \<Rightarrow> FormatOption \<Rightarrow> FormatOption" where
  "attach known es ns opt =
     (if known (option_type opt) then opt
      else (case es (option_type opt) of
              Some e \<Rightarrow> opt\<lparr>option_enum := Some e\<rparr>
            | None \<Rightarrow>
                (case ns (option_type opt) of
                   Some n \<Rightarrow> opt\<lparr>option_nested_struct := Some n\<rparr>
                 | None \<Rightarrow> opt)))"

lemma resolve_all:
  "list_all (resolvable known es ns) opts \<Longrightarrow>
     resolve known es ns opts = Inr (map (attach known es ns) opts)"
  by (induction opts) (auto simp: resolvable_def attach_def split: option.splits)

lemma resolve_first_bad:
  "list_all (resolvable known es ns) good \<Longrightarrow> \<not> resolvable known es ns bad \<Longrightarrow>
     resolve known es ns (good @ bad # rest) = Inl (Exception (''Unknown type: '' @ option_type bad))"
  by (induction good) (auto simp: resolvable_def split: option.splits)

text \<open>
  Claim C4: after a loop that ended in \<open>Finished\<close>, every option whose type the
  predicate does not accept gets the enumeration registered under its type, or else the
  nested structure registered under it; and when an option is of a type that is neither
  known nor registered, \<open>read_options\<close> raises the unknown-type error whose message
  names the type of the first such option.
\<close>

theorem unknown_type_resolution:
  assumes "scan init_vars header = Inr v" and "state v = Finished"
  shows "(list_all (resolvable known (enums v) (nested_structs v)) (options v) \<longrightarrow>
            read_options header known
              = Inr (map (attach known (enums v) (nested_structs v)) (options v)))
    \<and> (\<forall>good bad rest.
          options v = good @ bad # rest
          \<and> list_all (resolvable known (enums v) (nested_structs v)) good
          \<and> \<not> resolvable known (enums v) (nested_structs v) bad \<longrightarrow>
            read_options header known = Inl (Exception (''Unknown type: '' @ option_type bad)))"
  using assms by (auto simp: read_options_def resolve_all resolve_first_bad)

definition z_header :: "string list" where
  "z_header = [''struct FormatStyle {'', ''/// f'', ''Z Field;'', ''};'']"

theorem unknown_type_resolution_witness:
  "read_options z_header (\<lambda>t. False) = Inl (Exception ''Unknown type: Z'')
   \<and> read_options z_header (\<lambda>t. t = ''Z'') = Inr [new_Option ''Field'' ''Z'' ''f'']"
proof -
  define v0 where "v0 =
    \<lparr>state = Finished, options = [new_Option ''Field'' ''Z'' ''f''], enums = Map.empty,
     nested_structs = Map.empty, comment = ''f'' @ [NL], cur_enum = None,
     cur_nested_struct = None\<rparr>"
  have s: "strip ''struct FormatStyle {'' = ''struct FormatStyle {''" "strip ''/// f'' = ''/// f''"
    "strip ''Z Field;'' = ''Z Field;''" "strip ''};'' = ''};''"
    by code_simp+
  have c: "clean_comment_line ''/// f'' = [CHR ''f'', NL]"
    by code_simp
  have m: "re_match field_pattern ''Z Field;'' = Some [Some ''Z'', Some ''Field'']"
    by code_simp
  have n: "new_Option ''Field'' ''Z'' [CHR ''f'', NL] = new_Option ''Field'' ''Z'' ''f''"
    by code_simp
  have sc: "scan init_vars z_header = Inr v0"
    by (simp add: z_header_def s c m n v0_def init_vars_def step_def in_field_comment_def
        startswith_def endswith_def group_str_def)
  have fin: "state v0 = Finished"
    by (simp add: v0_def)
  have bad: "options v0 = [] @ new_Option ''Field'' ''Z'' ''f'' # []
      \<and> list_all (resolvable (\<lambda>t. False) (enums v0) (nested_structs v0)) []
      \<and> \<not> resolvable (\<lambda>t. False) (enums v0) (nested_structs v0) (new_Option ''Field'' ''Z'' ''f'')"
    by (simp add: v0_def resolvable_def new_Option_def)
  have good: "list_all (resolvable (\<lambda>t. t = ''Z'') (enums v0) (nested_structs v0)) (options v0)"
    by (simp add: v0_def resolvable_def new_Option_def)
  from unknown_type_resolution [OF sc fin, of "\<lambda>t. False"] bad
  have 1: "read_options z_header (\<lambda>t. False)
      = Inl (Exception (''Unknown type: '' @ option_type (new_Option ''Field'' ''Z'' ''f'')))"
    by blast
  from unknown_type_resolution [OF sc fin, of "\<lambda>t. t = ''Z''"] good
  have 2: "read_options z_header (\<lambda>t. t = ''Z'')
      = Inr (map (attach (\<lambda>t. t = ''Z'') (enums v0) (nested_structs v0)) (options v0))"
    by blast
  from 1 2 show ?thesis
    by (simp add: v0_def attach_def new_Option_def)
qed

end
